theory Spec2Isabelle
  imports Main
begin

section \<open>The SwiftChat matchmaking and signalling server\<close>

text \<open>
  The server keeps five module-level stores (two waiting queues, the private-room table,
  the socket-to-room and the socket-to-username maps) and registers one handler per
  inbound event on every connected socket.  The stores are the fields of
  \<open>server_state\<close>; a handler is a function from the state, the calling socket's id and
  the event payload to the new state and the list of events it emitted, in emission order.

  The socket.io room membership that \<open>socket.join\<close>, \<open>socket.leave\<close> and
  \<open>socket.to(room).emit\<close> work on is the sixth field, \<open>rooms\<close>: for every room name the
  sockets that joined it, in joining order and without repetition.  Socket ids and room
  names are strings of one name space: socket.io keeps every connected socket in the room
  named by its own id, and a handler can be given any string as a room name.
\<close>

type_synonym socket_id = string
type_synonym room_id = string

record waiting_entry =
  socket :: socket_id
  username :: string

record private_room =
  participants :: "string list"
  messages :: "string list"

datatype signal = Offer | Answer | IceCandidate

datatype out_event =
    ChatMatched string room_id
  | VideoChatMatched string room_id bool
  | RoomJoined "string list" bool
  | UserJoinedRoom string "string list" bool
  | MessageReceived string "string option"
  | RoomMessage string string
  | Webrtc signal string
  | PartnerDisconnected
  | UserLeftRoom "string option" "string list"

type_synonym emission = "socket_id \<times> out_event"

record server_state =
  textChatQueue :: "waiting_entry list"
  videoChatQueue :: "waiting_entry list"
  privateRooms :: "room_id \<rightharpoonup> private_room"
  socketToRoom :: "socket_id \<rightharpoonup> room_id"
  socketToUsername :: "socket_id \<rightharpoonup> string"
  rooms :: "room_id \<Rightarrow> socket_id list"

definition init :: server_state where
  "init = \<lparr> textChatQueue = [], videoChatQueue = [], privateRooms = Map.empty,
            socketToRoom = Map.empty, socketToUsername = Map.empty, rooms = (\<lambda>r. []) \<rparr>"

subsection \<open>socket.io primitives\<close>

definition socket_join :: "socket_id \<Rightarrow> room_id \<Rightarrow> server_state \<Rightarrow> server_state" where
  "socket_join sid r s =
     s\<lparr>rooms := (rooms s)(r := (if sid \<in> set (rooms s r) then rooms s r else rooms s r @ [sid]))\<rparr>"

definition socket_leave :: "socket_id \<Rightarrow> room_id \<Rightarrow> server_state \<Rightarrow> server_state" where
  "socket_leave sid r s = s\<lparr>rooms := (rooms s)(r := removeAll sid (rooms s r))\<rparr>"

text \<open>
  \<open>socket.to(r).emit(ev)\<close>.  socket.io 4 broadcasts to room \<open>r\<close> with the caller's id
  as an excepted room: the event goes to every socket in room \<open>r\<close> that is not in the
  room named by the caller's id.  That room holds the caller from its connection on, which
  is how the caller is left out; any other socket that joined a room of that name is left
  out with it, and a caller that has left its own room is not left out.
\<close>

definition socket_to :: "server_state \<Rightarrow> socket_id \<Rightarrow> room_id \<Rightarrow> out_event \<Rightarrow> emission list" where
  "socket_to s sid r ev = map (\<lambda>x. (x, ev)) (filter (\<lambda>x. x \<notin> set (rooms s sid)) (rooms s r))"

text \<open>
  JavaScript truthiness of a room id read from a map or a payload: \<open>undefined\<close> and the
  empty string are falsy.  \<open>js_or a b\<close> is \<open>a || b\<close>.
\<close>

fun truthy :: "string option \<Rightarrow> room_id option" where
  "truthy None = None"
| "truthy (Some r) = (if r = [] then None else Some r)"

definition js_or :: "string option \<Rightarrow> string option \<Rightarrow> string option" where
  "js_or a b = (case truthy a of Some r \<Rightarrow> Some r | None \<Rightarrow> b)"

subsection \<open>Room identifiers\<close>

text \<open>
  \<open>toUpperCase\<close> on the characters a base-36 numeral is written with (digits, the
  point and the lower-case Latin letters): the letters go to upper case, the rest stays.
\<close>

definition toUpperCase :: "string \<Rightarrow> string" where
  "toUpperCase =
     map (\<lambda>c. case map_of (zip ''abcdefghijklmnopqrstuvwxyz'' ''ABCDEFGHIJKLMNOPQRSTUVWXYZ'') c of
                Some u \<Rightarrow> u
              | None \<Rightarrow> c)"

text \<open>
  \<open>generateRoomId\<close> is \<open>Math.random().toString(36).substring(2, 8).toUpperCase()\<close>.  The
  argument is the base-36 text of the random draw (such as \<open>0.4fzyo82mvyr\<close>); the rest
  is computed as in the source.  The function reads no server state.
\<close>

definition generateRoomId :: "string \<Rightarrow> room_id" where
  "generateRoomId rnd = toUpperCase (take 6 (drop 2 rnd))"

subsection \<open>Handlers\<close>

text \<open>socket.io places every new socket in the room named by its own id.\<close>

definition connection :: "server_state \<Rightarrow> socket_id \<Rightarrow> server_state \<times> emission list" where
  "connection s sid = (socket_join sid sid s, [])"

definition joinTextChat ::
  "server_state \<Rightarrow> socket_id \<Rightarrow> string \<Rightarrow> string \<Rightarrow> server_state \<times> emission list" where
  "joinTextChat s sid uname rnd =
     (let s1 = s\<lparr>socketToUsername := (socketToUsername s)(sid \<mapsto> uname)\<rparr>
      in case textChatQueue s1 of
           partner # rest \<Rightarrow>
             let s2 = s1\<lparr>textChatQueue := rest\<rparr>;
                 roomId = ''text_'' @ generateRoomId rnd;
                 s3 = socket_join sid roomId s2;
                 s4 = socket_join (socket partner) roomId s3;
                 s5 = s4\<lparr>socketToRoom := (socketToRoom s4)(sid \<mapsto> roomId)\<rparr>;
                 s6 = s5\<lparr>socketToRoom := (socketToRoom s5)(socket partner \<mapsto> roomId)\<rparr>
             in (s6, [(sid, ChatMatched (username partner) roomId),
                      (socket partner, ChatMatched uname roomId)])
         | [] \<Rightarrow>
             (s1\<lparr>textChatQueue := textChatQueue s1 @ [\<lparr>socket = sid, username = uname\<rparr>]\<rparr>, []))"

definition joinVideoChat ::
  "server_state \<Rightarrow> socket_id \<Rightarrow> string \<Rightarrow> string \<Rightarrow> server_state \<times> emission list" where
  "joinVideoChat s sid uname rnd =
     (let s1 = s\<lparr>socketToUsername := (socketToUsername s)(sid \<mapsto> uname)\<rparr>
      in case videoChatQueue s1 of
           partner # rest \<Rightarrow>
             let s2 = s1\<lparr>videoChatQueue := rest\<rparr>;
                 roomId = ''video_'' @ generateRoomId rnd;
                 s3 = socket_join sid roomId s2;
                 s4 = socket_join (socket partner) roomId s3;
                 s5 = s4\<lparr>socketToRoom := (socketToRoom s4)(sid \<mapsto> roomId)\<rparr>;
                 s6 = s5\<lparr>socketToRoom := (socketToRoom s5)(socket partner \<mapsto> roomId)\<rparr>
             in (s6, [(sid, VideoChatMatched (username partner) roomId True),
                      (socket partner, VideoChatMatched uname roomId False)])
         | [] \<Rightarrow>
             (s1\<lparr>videoChatQueue := videoChatQueue s1 @ [\<lparr>socket = sid, username = uname\<rparr>]\<rparr>, []))"

definition joinPrivateRoom ::
  "server_state \<Rightarrow> socket_id \<Rightarrow> room_id \<Rightarrow> string \<Rightarrow> server_state \<times> emission list" where
  "joinPrivateRoom s sid roomId uname =
     (let s1 = s\<lparr>socketToUsername := (socketToUsername s)(sid \<mapsto> uname)\<rparr>;
          s2 = s1\<lparr>socketToRoom := (socketToRoom s1)(sid \<mapsto> roomId)\<rparr>;
          s3 = socket_join sid roomId s2;
          room = (case privateRooms s3 roomId of
                    None \<Rightarrow> \<lparr>participants = [], messages = []\<rparr>
                  | Some r \<Rightarrow> r);
          ps = (if uname \<in> set (participants room) then participants room
                else participants room @ [uname]);
          s4 = s3\<lparr>privateRooms := (privateRooms s3)(roomId \<mapsto> room\<lparr>participants := ps\<rparr>)\<rparr>
      in (s4, (sid, RoomJoined ps (length ps = 2 \<and> hd ps = uname))
              # socket_to s4 sid roomId
                  (UserJoinedRoom uname ps (length ps = 2 \<and> hd ps \<noteq> uname))))"

definition sendMessage ::
  "server_state \<Rightarrow> socket_id \<Rightarrow> string \<Rightarrow> server_state \<times> emission list" where
  "sendMessage s sid message =
     (case truthy (socketToRoom s sid) of
        Some roomId \<Rightarrow> (s, socket_to s sid roomId (MessageReceived message (socketToUsername s sid)))
      | None \<Rightarrow> (s, []))"

definition sendRoomMessage ::
  "server_state \<Rightarrow> socket_id \<Rightarrow> room_id \<Rightarrow> string \<Rightarrow> string \<Rightarrow> server_state \<times> emission list" where
  "sendRoomMessage s sid roomId message sender = (s, socket_to s sid roomId (RoomMessage message sender))"

text \<open>
  The handlers of \<open>webrtc-offer\<close>, \<open>webrtc-answer\<close> and \<open>webrtc-ice-candidate\<close> are the
  same code up to the event name and the payload field they forward; \<open>webrtc\<close> takes
  which of the three it is.  \<open>dataRoomId\<close> is the payload's optional \<open>roomId\<close>.
\<close>

definition webrtc ::
  "signal \<Rightarrow> server_state \<Rightarrow> socket_id \<Rightarrow> string \<Rightarrow> string option \<Rightarrow> server_state \<times> emission list" where
  "webrtc k s sid payload dataRoomId =
     (case truthy (js_or (socketToRoom s sid) dataRoomId) of
        Some roomId \<Rightarrow> (s, socket_to s sid roomId (Webrtc k payload))
      | None \<Rightarrow> (s, []))"

definition findNewPartner :: "server_state \<Rightarrow> socket_id \<Rightarrow> server_state \<times> emission list" where
  "findNewPartner s sid =
     (case truthy (socketToRoom s sid) of
        Some roomId \<Rightarrow>
          (let out = socket_to s sid roomId PartnerDisconnected;
               s1 = socket_leave sid roomId s
           in (s1\<lparr>socketToRoom := (socketToRoom s1)(sid := None)\<rparr>, out))
      | None \<Rightarrow> (s, []))"

text \<open>\<open>findIndex\<close> followed by \<open>splice(index, 1)\<close>: the first entry of the socket goes.\<close>

fun remove_waiting :: "socket_id \<Rightarrow> waiting_entry list \<Rightarrow> waiting_entry list" where
  "remove_waiting sid [] = []"
| "remove_waiting sid (e # q) = (if socket e = sid then q else e # remove_waiting sid q)"

text \<open>
  By the time socket.io fires \<open>disconnect\<close> the socket has left all its rooms; the
  handler then runs on the stores.
\<close>

definition disconnect :: "server_state \<Rightarrow> socket_id \<Rightarrow> server_state \<times> emission list" where
  "disconnect s sid =
     (let s0 = s\<lparr>rooms := (\<lambda>r. removeAll sid (rooms s r))\<rparr>;
          s1 = s0\<lparr>textChatQueue := remove_waiting sid (textChatQueue s0)\<rparr>;
          s2 = s1\<lparr>videoChatQueue := remove_waiting sid (videoChatQueue s1)\<rparr>;
          (s3, out) =
            (case truthy (socketToRoom s2 sid) of
               Some roomId \<Rightarrow>
                 (let out1 = socket_to s2 sid roomId PartnerDisconnected
                  in case privateRooms s2 roomId of
                       Some room \<Rightarrow>
                         (let uname = socketToUsername s2 sid;
                              ps = filter (\<lambda>p. Some p \<noteq> uname) (participants room);
                              out2 = socket_to s2 sid roomId (UserLeftRoom uname ps);
                              table = (if ps = [] then (privateRooms s2)(roomId := None)
                                       else (privateRooms s2)(roomId \<mapsto> room\<lparr>participants := ps\<rparr>))
                          in (s2\<lparr>privateRooms := table\<rparr>, out1 @ out2))
                     | None \<Rightarrow> (s2, out1))
             | None \<Rightarrow> (s2, []))
      in (s3\<lparr>socketToRoom := (socketToRoom s3)(sid := None),
              socketToUsername := (socketToUsername s3)(sid := None)\<rparr>, out))"

subsection \<open>Event dispatch and runs\<close>

text \<open>
  An event names the socket it comes from and carries the payload fields the handler
  reads, as the protocol and the clients give them: strings, and for the signalling events
  an optional \<open>roomId\<close>.  \<open>JoinTextChat\<close> and \<open>JoinVideoChat\<close> also carry the base-36
  text of the number \<open>Math.random()\<close> gives if the handler generates a room id.
\<close>

datatype event =
    Connection socket_id
  | JoinTextChat socket_id string string
  | JoinVideoChat socket_id string string
  | JoinPrivateRoom socket_id room_id string
  | SendMessage socket_id string
  | SendRoomMessage socket_id room_id string string
  | WebrtcSignal signal socket_id string "string option"
  | FindNewPartner socket_id
  | Disconnect socket_id

fun step :: "server_state \<Rightarrow> event \<Rightarrow> server_state \<times> emission list" where
  "step s (Connection sid) = connection s sid"
| "step s (JoinTextChat sid uname rnd) = joinTextChat s sid uname rnd"
| "step s (JoinVideoChat sid uname rnd) = joinVideoChat s sid uname rnd"
| "step s (JoinPrivateRoom sid roomId uname) = joinPrivateRoom s sid roomId uname"
| "step s (SendMessage sid message) = sendMessage s sid message"
| "step s (SendRoomMessage sid roomId message sender) = sendRoomMessage s sid roomId message sender"
| "step s (WebrtcSignal k sid payload dataRoomId) = webrtc k s sid payload dataRoomId"
| "step s (FindNewPartner sid) = findNewPartner s sid"
| "step s (Disconnect sid) = disconnect s sid"

text \<open>The server handles one event at a time; \<open>run\<close> gives the state after a sequence.\<close>

fun run :: "server_state \<Rightarrow> event list \<Rightarrow> server_state" where
  "run s [] = s"
| "run s (e # es) = run (fst (step s e)) es"

subsection \<open>Observations on runs\<close>

text \<open>
  A text match is seen in what the handler emitted: \<open>chatMatched\<close> to the caller, then
  \<open>chatMatched\<close> to the partner taken from the queue.  \<open>chat_pair\<close> reads the pair
  (caller, partner) off one handler's emissions, \<open>chat_pairs\<close> collects the pairs formed
  along a sequence of events, and \<open>text_requests\<close> counts its \<open>joinTextChat\<close> requests.
\<close>

fun chat_pair :: "emission list \<Rightarrow> (socket_id \<times> socket_id) list" where
  "chat_pair [(a, ChatMatched u r), (b, ChatMatched v r')] = [(a, b)]"
| "chat_pair out = []"

fun chat_pairs :: "server_state \<Rightarrow> event list \<Rightarrow> (socket_id \<times> socket_id) list" where
  "chat_pairs s [] = []"
| "chat_pairs s (e # es) = chat_pair (snd (step s e)) @ chat_pairs (fst (step s e)) es"



text \<open>
  The state in which the \<open>k\<close>-th event of a sequence is handled, and the text queue seen
  there.  \<open>enqueued_at es i a\<close>: event \<open>i\<close> is a \<open>joinTextChat\<close> of socket \<open>a\<close> that finds
  the queue empty, so \<open>a\<close> is put in the queue.  \<open>matched_at es k a\<close>: event \<open>k\<close> is a
  \<open>joinTextChat\<close> that finds an entry of \<open>a\<close> at the head of the queue, so \<open>a\<close> is the
  partner it is matched with.
\<close>

definition head_is :: "server_state \<Rightarrow> socket_id \<Rightarrow> bool" where
  "head_is s a = (case textChatQueue s of [] \<Rightarrow> False | p # rest \<Rightarrow> socket p = a)"

definition before :: "event list \<Rightarrow> nat \<Rightarrow> server_state" where
  "before es k = run init (take k es)"

definition enqueued_at :: "event list \<Rightarrow> nat \<Rightarrow> socket_id \<Rightarrow> bool" where
  "enqueued_at es i a \<longleftrightarrow>
     i < length es \<and> textChatQueue (before es i) = [] \<and>
     (case es ! i of JoinTextChat sid uname rnd \<Rightarrow> sid = a | _ \<Rightarrow> False)"

definition matched_at :: "event list \<Rightarrow> nat \<Rightarrow> socket_id \<Rightarrow> bool" where
  "matched_at es k a \<longleftrightarrow>
     k < length es \<and> head_is (before es k) a \<and>
     (case es ! k of JoinTextChat sid uname rnd \<Rightarrow> True | _ \<Rightarrow> False)"





text \<open>\<open>bound_in_room s\<close>: every socket is a member of the socket.io room it is bound to.\<close>

definition bound_in_room :: "server_state \<Rightarrow> bool" where
  "bound_in_room s \<longleftrightarrow> (\<forall>x r. socketToRoom s x = Some r \<longrightarrow> x \<in> set (rooms s r))"

subsection \<open>Scenarios\<close>

text \<open>In every scenario the sockets connect first.  Four sockets join the text queue in turn.\<close>

definition four_joins :: "event list" where
  "four_joins =
     [Connection ''s1'', Connection ''s2'', Connection ''s3'', Connection ''s4'',
      JoinTextChat ''s1'' ''Ann'' ''0.4fzyo82mvyr'', JoinTextChat ''s2'' ''Bob'' ''0.9k2x7q1'',
      JoinTextChat ''s3'' ''Cy'' ''0.zz81ab3'', JoinTextChat ''s4'' ''Di'' ''0.q0w9e8r7'']"

text \<open>
  Text chat as the client drives it: two sockets are matched, the first skips
  (\<open>findNewPartner\<close>), the second, told \<open>partnerDisconnected\<close>, joins the text queue again
  and then the video queue, without having left its room.
\<close>

definition rejoin_after_skip :: "event list" where
  "rejoin_after_skip =
     [Connection ''s1'', Connection ''s2'',
      JoinTextChat ''s1'' ''Ann'' ''0.4fzyo82mvyr'', JoinTextChat ''s2'' ''Bob'' ''0.9k2x7q1'',
      FindNewPartner ''s1'', JoinTextChat ''s2'' ''Bob'' ''0.zz81ab3'',
      JoinVideoChat ''s2'' ''Bob'' ''0.q0w9e8r7'']"

text \<open>Every socket leaves its room, and is not waiting, before it joins anything again.\<close>

definition leave_and_rejoin :: "event list" where
  "leave_and_rejoin =
     [Connection ''s1'', Connection ''s2'', Connection ''s3'',
      JoinTextChat ''s1'' ''Ann'' ''0.4fzyo82mvyr'', JoinTextChat ''s2'' ''Bob'' ''0.9k2x7q1'',
      FindNewPartner ''s1'', FindNewPartner ''s2'',
      JoinVideoChat ''s1'' ''Ann'' ''0.zz81ab3'', JoinPrivateRoom ''s3'' ''AB12CD'' ''Cy'',
      Disconnect ''s1'', JoinPrivateRoom ''s2'' ''AB12CD'' ''Bob'']"

text \<open>Two matches for which \<open>Math.random()\<close> gives the same number.\<close>

definition colliding_draws :: "event list" where
  "colliding_draws =
     [Connection ''s1'', Connection ''s2'', Connection ''s3'', Connection ''s4'',
      JoinTextChat ''s1'' ''Ann'' ''0.4fzyo82mvyr'', JoinTextChat ''s2'' ''Bob'' ''0.9k2x7q1'',
      JoinTextChat ''s3'' ''Cy'' ''0.zz81ab3'', JoinTextChat ''s4'' ''Di'' ''0.9k2x7q1'']"

text \<open>
  A matched socket joins the text queue again without leaving its room and is matched
  with a third socket.
\<close>

definition stale_member :: "event list" where
  "stale_member =
     [Connection ''s1'', Connection ''s2'', Connection ''s3'',
      JoinTextChat ''s1'' ''Ann'' ''0.4fzyo82mvyr'', JoinTextChat ''s2'' ''Bob'' ''0.9k2x7q1'',
      JoinTextChat ''s2'' ''Bob'' ''0.zz81ab3'', JoinTextChat ''s3'' ''Cy'' ''0.q0w9e8r7'']"

text \<open>Two sockets join the private room whose code is the empty string.\<close>

definition empty_code :: "event list" where
  "empty_code =
     [Connection ''s1'', Connection ''s2'',
      JoinPrivateRoom ''s1'' [] ''Ann'', JoinPrivateRoom ''s2'' [] ''Bob'']"

text \<open>
  Socket s2 joins the private room whose code is the id of socket s1; in
  \<open>own_room_shared\<close> s1 then joins that room too.
\<close>

definition own_room_joined :: server_state where
  "own_room_joined = run init [Connection ''s1'', Connection ''s2'', JoinPrivateRoom ''s2'' ''s1'' ''Bob'']"

definition own_room_shared :: "event list" where
  "own_room_shared =
     [Connection ''s1'', Connection ''s2'',
      JoinPrivateRoom ''s2'' ''s1'' ''Bob'', JoinPrivateRoom ''s1'' ''s1'' ''Ann'']"

text \<open>The private-room scenario: A opens room AB12CD, then B joins it.\<close>

definition room_opened :: server_state where
  "room_opened = run init [Connection ''s1'', Connection ''s2'', JoinPrivateRoom ''s1'' ''AB12CD'' ''A'']"

definition room_of_two :: server_state where
  "room_of_two =
     run init [Connection ''s1'', Connection ''s2'',
               JoinPrivateRoom ''s1'' ''AB12CD'' ''A'', JoinPrivateRoom ''s2'' ''AB12CD'' ''B'']"

text \<open>The video scenario: A has joined the video queue and waits.\<close>

definition video_waiting :: server_state where
  "video_waiting = run init [Connection ''s1'', Connection ''s2'', JoinVideoChat ''s1'' ''Ann'' ''0.4fzyo82mvyr'']"

section \<open>Properties\<close>

lemmas handler_defs = connection_def joinTextChat_def joinVideoChat_def joinPrivateRoom_def
  sendMessage_def sendRoomMessage_def webrtc_def findNewPartner_def disconnect_def
  socket_join_def socket_leave_def Let_def

lemmas server_defs = init_def handler_defs socket_to_def js_or_def generateRoomId_def toUpperCase_def

lemmas scenario_defs = four_joins_def rejoin_after_skip_def leave_and_rejoin_def colliding_draws_def
  stale_member_def empty_code_def own_room_joined_def own_room_shared_def room_opened_def
  room_of_two_def video_waiting_def

subsection \<open>What one step does to the text queue and to the pairs\<close>





lemma textChatQueue_step:
  "textChatQueue (fst (step s e)) =
     (case e of
        JoinTextChat sid uname rnd \<Rightarrow>
          (case textChatQueue s of
             [] \<Rightarrow> [\<lparr>socket = sid, username = uname\<rparr>]
           | partner # rest \<Rightarrow> rest)
      | Disconnect sid \<Rightarrow> remove_waiting sid (textChatQueue s)
      | _ \<Rightarrow> textChatQueue s)"
  by (cases e)
     (auto simp: connection_def joinTextChat_def joinVideoChat_def joinPrivateRoom_def sendMessage_def
                 sendRoomMessage_def webrtc_def findNewPartner_def disconnect_def socket_join_def
                 socket_leave_def Let_def
           split: list.splits option.splits prod.splits)



subsection \<open>Text matching\<close>




subsection \<open>Video matching\<close>

text \<open>
  C6.  When a \<open>joinVideoChat\<close> of B finds A waiting at the head of the video queue, the
  two are matched: B, the new arrival, is sent \<open>videoChatMatched\<close> with
  \<open>shouldCreateOffer\<close> true, A, taken from the queue, is sent it with
  \<open>shouldCreateOffer\<close> false, both events carry the same room id, and both sockets are
  bound to that room.
\<close>

theorem video_match_offer_roles:
  "videoChatQueue s = partner # rest \<Longrightarrow>
     snd (joinVideoChat s b bname rnd) =
       [(b, VideoChatMatched (username partner) (''video_'' @ generateRoomId rnd) True),
        (socket partner, VideoChatMatched bname (''video_'' @ generateRoomId rnd) False)] \<and>
     socketToRoom (fst (joinVideoChat s b bname rnd)) b = Some (''video_'' @ generateRoomId rnd) \<and>
     socketToRoom (fst (joinVideoChat s b bname rnd)) (socket partner)
       = Some (''video_'' @ generateRoomId rnd)"
  by (simp add: joinVideoChat_def Let_def socket_join_def)

text \<open>The scenario of the specification: A (socket s1) arrives first, B (socket s2) second.\<close>

theorem video_match_offer_roles_witness:
  "videoChatQueue video_waiting = [\<lparr>socket = ''s1'', username = ''Ann''\<rparr>] \<and>
   snd (joinVideoChat video_waiting ''s2'' ''Bob'' ''0.9k2x7q1'') =
     [(''s2'', VideoChatMatched ''Ann'' ''video_9K2X7Q'' True),
      (''s1'', VideoChatMatched ''Bob'' ''video_9K2X7Q'' False)]"
  using video_match_offer_roles
    [of video_waiting "\<lparr>socket = ''s1'', username = ''Ann''\<rparr>" "[]" "''s2''" "''Bob''" "''0.9k2x7q1''"]
  by (simp add: scenario_defs server_defs)

subsection \<open>Private rooms\<close>

text \<open>
  C7 (as amended).  After \<open>joinPrivateRoom\<close> the room is in the table with a non-empty
  occupant list (occupants are display names, as in the source).  The caller is sent
  \<open>roomJoined\<close> with that list and \<open>shouldCreateOffer\<close> true exactly when the list has
  two entries and the first is the caller's name.  \<open>userJoinedRoom\<close> is sent to the
  sockets in the room that are not in the room named by the caller's id, with the list
  and \<open>shouldCreateOffer\<close> true exactly when the list has two entries and the first is
  not the joiner's name.  So when the list has two entries and the first is not the
  joiner's name, every socket in the room that is not in the room named by the caller's
  id, the first occupant's among them, is told to create the offer.
\<close>

theorem private_join_flags:
  "\<exists>room. privateRooms (fst (joinPrivateRoom s sid roomId uname)) roomId = Some room \<and>
     participants room \<noteq> [] \<and>
     snd (joinPrivateRoom s sid roomId uname) =
       (sid, RoomJoined (participants room)
               (length (participants room) = 2 \<and> hd (participants room) = uname))
       # map (\<lambda>x. (x, UserJoinedRoom uname (participants room)
                        (length (participants room) = 2 \<and> hd (participants room) \<noteq> uname)))
             (filter (\<lambda>x. x \<notin> set (rooms (fst (joinPrivateRoom s sid roomId uname)) sid))
                     (rooms (fst (joinPrivateRoom s sid roomId uname)) roomId)) \<and>
     (\<forall>x. length (participants room) = 2 \<and> hd (participants room) \<noteq> uname \<and>
          x \<in> set (rooms (fst (joinPrivateRoom s sid roomId uname)) roomId) \<and>
          x \<notin> set (rooms (fst (joinPrivateRoom s sid roomId uname)) sid) \<longrightarrow>
          (x, UserJoinedRoom uname (participants room) True)
            \<in> set (snd (joinPrivateRoom s sid roomId uname)))"
proof (cases "privateRooms s roomId")
  case None
  then show ?thesis
    by (simp add: joinPrivateRoom_def Let_def socket_to_def socket_join_def)
next
  case (Some r)
  then show ?thesis
    by (cases "uname \<in> set (participants r)")
       (auto simp: joinPrivateRoom_def Let_def socket_to_def socket_join_def)
qed

text \<open>
  The scenario of the specification: A opens AB12CD alone and is told not to offer; B
  joins, is told not to offer, and A, the first occupant, is told to create the offer.
\<close>

theorem private_join_flags_witness:
  "snd (joinPrivateRoom (run init [Connection ''s1'', Connection ''s2'']) ''s1'' ''AB12CD'' ''A'')
     = [(''s1'', RoomJoined [''A''] False)] \<and>
   rooms (fst (joinPrivateRoom room_opened ''s2'' ''AB12CD'' ''B'')) ''AB12CD'' = [''s1'', ''s2''] \<and>
   rooms (fst (joinPrivateRoom room_opened ''s2'' ''AB12CD'' ''B'')) ''s2'' = [''s2''] \<and>
   snd (joinPrivateRoom room_opened ''s2'' ''AB12CD'' ''B'') =
     [(''s2'', RoomJoined [''A'', ''B''] False), (''s1'', UserJoinedRoom ''B'' [''A'', ''B''] True)] \<and>
   (''s1'', UserJoinedRoom ''B'' [''A'', ''B''] True)
     \<in> set (snd (joinPrivateRoom room_opened ''s2'' ''AB12CD'' ''B''))"
  using private_join_flags [of "run init [Connection ''s1'', Connection ''s2'']" "''s1''" "''AB12CD''" "''A''"]
        private_join_flags [of room_opened "''s2''" "''AB12CD''" "''B''"]
  by (simp add: scenario_defs server_defs)

text \<open>
  C7 as stated fails in its last part.  Bob (socket s2) is the first occupant of the room
  whose code is the id of socket s1; when Ann (socket s1) joins, the room has two
  occupants and the first is not the joiner, but s2 is in the room named by the caller's
  id, so \<open>userJoinedRoom\<close> is sent to nobody: the first occupant is not told to create
  the offer, and the joiner is told not to.
\<close>

theorem private_join_counterexample:
  "privateRooms own_room_joined ''s1'' = Some \<lparr>participants = [''Bob''], messages = []\<rparr> \<and>
   rooms (fst (joinPrivateRoom own_room_joined ''s1'' ''s1'' ''Ann'')) ''s1'' = [''s1'', ''s2''] \<and>
   snd (joinPrivateRoom own_room_joined ''s1'' ''s1'' ''Ann'')
     = [(''s1'', RoomJoined [''Bob'', ''Ann''] False)]"
  by (simp add: scenario_defs server_defs)

text \<open>
  C9.  If the caller's display name is already in the room's occupant list,
  \<open>joinPrivateRoom\<close> leaves the room's entry (its occupant list included) as it was; and
  joining a second time under the same name, from the same or another socket, gives the
  same room table as joining once.
\<close>

theorem private_rejoin_idempotent:
  "(privateRooms s roomId = Some room \<and> uname \<in> set (participants room) \<longrightarrow>
      privateRooms (fst (joinPrivateRoom s sid roomId uname)) roomId = Some room) \<and>
   privateRooms (fst (joinPrivateRoom (fst (joinPrivateRoom s sid roomId uname)) sid' roomId uname))
     = privateRooms (fst (joinPrivateRoom s sid roomId uname))"
  by (auto simp: joinPrivateRoom_def Let_def socket_join_def split: option.splits)

text \<open>A joins the room of A and B again: the occupant list is still A, B.\<close>

theorem private_rejoin_idempotent_witness:
  "privateRooms room_of_two ''AB12CD'' = Some \<lparr>participants = [''A'', ''B''], messages = []\<rparr> \<and>
   ''A'' \<in> set (participants \<lparr>participants = [''A'', ''B''], messages = []\<rparr>) \<and>
   privateRooms (fst (joinPrivateRoom room_of_two ''s1'' ''AB12CD'' ''A'')) ''AB12CD''
     = Some \<lparr>participants = [''A'', ''B''], messages = []\<rparr>"
  using private_rejoin_idempotent
    [of room_of_two "''AB12CD''" "\<lparr>participants = [''A'', ''B''], messages = []\<rparr>" "''A''" "''s1''" "''s1''"]
  by (simp add: scenario_defs server_defs)

subsection \<open>Relaying\<close>

text \<open>
  C10 (as amended).  \<open>sendRoomMessage\<close> changes no state and sends \<open>roomMessage\<close> with
  the payload's message and sender, as given, to every socket in the payload's room that
  is not in the room named by the caller's id; a caller that is in its own room is
  therefore not among the recipients.  What is sent does not depend on \<open>socketToRoom\<close>
  or \<open>socketToUsername\<close>: neither the caller's binding to the room nor its registered
  name is looked at.
\<close>

theorem room_message_unchecked:
  "fst (sendRoomMessage s sid roomId message sender) = s \<and>
   snd (sendRoomMessage s sid roomId message sender) =
     map (\<lambda>x. (x, RoomMessage message sender))
         (filter (\<lambda>x. x \<notin> set (rooms s sid)) (rooms s roomId)) \<and>
   snd (sendRoomMessage (s\<lparr>socketToRoom := bindings, socketToUsername := names\<rparr>)
          sid roomId message sender)
     = snd (sendRoomMessage s sid roomId message sender) \<and>
   (sid \<in> set (rooms s sid) \<longrightarrow>
      sid \<notin> set (map fst (snd (sendRoomMessage s sid roomId message sender))))"
  by (auto simp: sendRoomMessage_def socket_to_def)

text \<open>
  Socket s2 has joined no room and registered no name; its \<open>sendRoomMessage\<close> into
  AB12CD under the name A reaches the occupant s1, and not s2.
\<close>

theorem room_message_unchecked_witness:
  "socketToRoom room_opened ''s2'' = None \<and>
   socketToUsername room_opened ''s2'' = None \<and>
   rooms room_opened ''AB12CD'' = [''s1''] \<and>
   ''s2'' \<in> set (rooms room_opened ''s2'') \<and>
   snd (sendRoomMessage room_opened ''s2'' ''AB12CD'' ''hi'' ''A'') = [(''s1'', RoomMessage ''hi'' ''A'')] \<and>
   ''s2'' \<notin> set (map fst (snd (sendRoomMessage room_opened ''s2'' ''AB12CD'' ''hi'' ''A'')))"
  using room_message_unchecked [of room_opened "''s2''" "''AB12CD''" "''hi''" "''A''"]
  by (simp add: scenario_defs server_defs)

text \<open>
  C10 as stated fails in what it says of the recipients: s2 is in the payload's room and
  is not the sender, but it is in the room named by the sender's id, and the
  \<open>sendRoomMessage\<close> of s1 is sent to nobody.
\<close>

theorem room_message_counterexample:
  "rooms own_room_joined ''s1'' = [''s1'', ''s2''] \<and>
   snd (sendRoomMessage own_room_joined ''s1'' ''s1'' ''hi'' ''Ann'') = []"
  by (simp add: scenario_defs server_defs)

text \<open>
  C4 (as amended).  From a socket with no bound room, \<open>sendMessage\<close> is dropped: nothing
  is emitted and the state is unchanged.  A \<open>webrtc-offer\<close>, \<open>webrtc-answer\<close> or
  \<open>webrtc-ice-candidate\<close> from such a socket changes no state either, and is dropped
  when its payload has no \<open>roomId\<close> (or an empty one); when the payload names a room,
  the event is relayed to every socket in that room that is not in the room named by
  the caller's id.
\<close>

theorem unbound_relay:
  "socketToRoom s sid = None \<Longrightarrow>
     sendMessage s sid message = (s, []) \<and>
     webrtc k s sid payload dataRoomId =
       (s, case truthy dataRoomId of
             None \<Rightarrow> []
           | Some r \<Rightarrow> map (\<lambda>x. (x, Webrtc k payload))
                            (filter (\<lambda>x. x \<notin> set (rooms s sid)) (rooms s r)))"
  by (simp add: sendMessage_def webrtc_def js_or_def socket_to_def split: option.splits)

theorem unbound_relay_witness:
  "socketToRoom room_opened ''s2'' = None \<and>
   sendMessage room_opened ''s2'' ''hi'' = (room_opened, []) \<and>
   snd (webrtc Answer room_opened ''s2'' ''sdp'' None) = [] \<and>
   webrtc IceCandidate room_opened ''s2'' ''c'' (Some ''AB12CD'')
     = (room_opened, [(''s1'', Webrtc IceCandidate ''c'')])"
  using unbound_relay [of room_opened "''s2''" "''hi''" Answer "''sdp''" None]
        unbound_relay [of room_opened "''s2''" "''hi''" IceCandidate "''c''" "Some ''AB12CD''"]
  by (simp add: scenario_defs server_defs)

text \<open>
  C4 as stated fails: socket s2 has no bound room, yet its \<open>webrtc-offer\<close> with the
  payload's \<open>roomId\<close> AB12CD is delivered to s1.
\<close>

theorem unbound_signal_counterexample:
  "socketToRoom room_opened ''s2'' = None \<and>
   snd (webrtc Offer room_opened ''s2'' ''sdp'' (Some ''AB12CD'')) = [(''s1'', Webrtc Offer ''sdp'')]"
  by (simp add: scenario_defs server_defs)

subsection \<open>Order of matching\<close>

lemma run_snoc: "run s (es @ [e]) = fst (step (run s es) e)"
  by (induction es arbitrary: s) (simp_all del: step.simps)

lemma before_Suc: "k < length es \<Longrightarrow> before es (Suc k) = fst (step (before es k) (es ! k))"
  by (simp add: before_def take_Suc_conv_app_nth run_snoc del: step.simps)

lemma head_after_enqueue: "enqueued_at es i a \<Longrightarrow> head_is (before es (Suc i)) a"
  using textChatQueue_step [of "before es i" "es ! i"]
  by (auto simp: enqueued_at_def before_Suc head_is_def split: event.splits simp del: step.simps)

text \<open>Only a text match or the socket's own disconnect takes an entry from the head.\<close>

lemma head_lost:
  assumes "head_is s a" and "\<not> head_is (fst (step s e)) a"
  shows "(case e of JoinTextChat sid uname rnd \<Rightarrow> True | _ \<Rightarrow> False) \<or> e = Disconnect a"
  using assms textChatQueue_step [of s e]
  by (cases e; cases "textChatQueue s") (auto simp: head_is_def simp del: step.simps split: if_splits)

lemma head_change_point:
  "head_is (before es lo) a \<Longrightarrow> \<not> head_is (before es hi) a \<Longrightarrow> lo \<le> hi \<Longrightarrow>
     \<exists>k. lo \<le> k \<and> k < hi \<and> head_is (before es k) a \<and> \<not> head_is (before es (Suc k)) a"
proof (induction hi)
  case 0
  then show ?case by simp
next
  case (Suc hi)
  show ?case
  proof (cases "head_is (before es hi) a")
    case True
    with Suc.prems have "lo \<le> hi"
      by (metis le_SucE)
    with True Suc.prems(2) show ?thesis by blast
  next
    case False
    with Suc.prems have "lo \<le> hi"
      by (metis le_SucE)
    with Suc.IH [OF Suc.prems(1) False] obtain k
      where "lo \<le> k" "k < hi" "head_is (before es k) a" "\<not> head_is (before es (Suc k)) a"
      by blast
    then show ?thesis by (intro exI [of _ k]) simp
  qed
qed

lemma left_before_next_enqueue:
  assumes "enqueued_at es i a" and "enqueued_at es j b" and "i < j"
  shows "\<exists>k. i < k \<and> k < j \<and> (matched_at es k a \<or> es ! k = Disconnect a)"
proof -
  have "head_is (before es (Suc i)) a" by (rule head_after_enqueue [OF assms(1)])
  moreover from assms(2) have "\<not> head_is (before es j) a"
    by (simp add: enqueued_at_def head_is_def)
  moreover from assms(3) have "Suc i \<le> j" by simp
  ultimately obtain k where k: "Suc i \<le> k" "k < j" "head_is (before es k) a"
      "\<not> head_is (before es (Suc k)) a"
    using head_change_point by blast
  from assms(2) k(2) have len: "k < length es" by (simp add: enqueued_at_def)
  with k(4) have "\<not> head_is (fst (step (before es k) (es ! k))) a" by (simp add: before_Suc)
  with k(3) have "(case es ! k of JoinTextChat sid uname rnd \<Rightarrow> True | _ \<Rightarrow> False)
                  \<or> es ! k = Disconnect a"
    by (rule head_lost)
  with k(3) len have "matched_at es k a \<or> es ! k = Disconnect a"
    by (auto simp: matched_at_def)
  with k(1,2) show ?thesis by (intro exI [of _ k]) simp
qed

lemma matched_before_next_enqueue:
  assumes "enqueued_at es i a" and "enqueued_at es j b" and "i < j"
    and "list_all (\<lambda>k. es ! k \<noteq> Disconnect a) [Suc i..<j]"
  shows "\<exists>k. i < k \<and> k < j \<and> matched_at es k a"
proof -
  from left_before_next_enqueue [OF assms(1-3)] obtain k
    where k: "i < k" "k < j" "matched_at es k a \<or> es ! k = Disconnect a"
    by blast
  from k(1,2) have "k \<in> set [Suc i..<j]" by auto
  with assms(4) have "es ! k \<noteq> Disconnect a" by (simp add: list_all_iff)
  with k show ?thesis by blast
qed

text \<open>From the initial state the text queue never holds more than one entry.\<close>

lemma text_queue_short: "length (textChatQueue s) \<le> 1 \<Longrightarrow> length (textChatQueue (run s es)) \<le> 1"
proof (induction es arbitrary: s)
  case Nil
  then show ?case by simp
next
  case (Cons e es)
  have "length (textChatQueue (fst (step s e))) \<le> 1"
    using Cons.prems textChatQueue_step [of s e]
    by (cases e; cases "textChatQueue s") (auto simp del: step.simps)
  then show ?case using Cons.IH by simp
qed

text \<open>
  C5.  A join request that finds its queue non-empty removes the head entry, the oldest,
  and matches the caller with it: both are sent the matched event with the partner's
  name and the new room id, and both are bound to that room.  One that finds the queue
  empty appends the caller's entry and emits nothing.  This holds for the text and for
  the video queue.

  For the order of matching, in any sequence of events from the initial state: if A is
  put in the text queue at event \<open>i\<close> and B at a later event \<open>j\<close>, then A's entry has left
  the queue at an event strictly between the two, taken by a match or removed by A's
  disconnect.  So if A does not disconnect in between and B is matched at a later event
  \<open>j'\<close>, A was matched at an event before \<open>j'\<close>.
\<close>

theorem fifo_matching:
  "(textChatQueue s = partner # rest \<longrightarrow>
      textChatQueue (fst (joinTextChat s sid uname rnd)) = rest \<and>
      snd (joinTextChat s sid uname rnd) =
        [(sid, ChatMatched (username partner) (''text_'' @ generateRoomId rnd)),
         (socket partner, ChatMatched uname (''text_'' @ generateRoomId rnd))] \<and>
      socketToRoom (fst (joinTextChat s sid uname rnd)) sid = Some (''text_'' @ generateRoomId rnd) \<and>
      socketToRoom (fst (joinTextChat s sid uname rnd)) (socket partner)
        = Some (''text_'' @ generateRoomId rnd)) \<and>
   (textChatQueue s = [] \<longrightarrow>
      textChatQueue (fst (joinTextChat s sid uname rnd)) = [\<lparr>socket = sid, username = uname\<rparr>] \<and>
      snd (joinTextChat s sid uname rnd) = []) \<and>
   (videoChatQueue s = partner # rest \<longrightarrow>
      videoChatQueue (fst (joinVideoChat s sid uname rnd)) = rest \<and>
      snd (joinVideoChat s sid uname rnd) =
        [(sid, VideoChatMatched (username partner) (''video_'' @ generateRoomId rnd) True),
         (socket partner, VideoChatMatched uname (''video_'' @ generateRoomId rnd) False)] \<and>
      socketToRoom (fst (joinVideoChat s sid uname rnd)) sid = Some (''video_'' @ generateRoomId rnd) \<and>
      socketToRoom (fst (joinVideoChat s sid uname rnd)) (socket partner)
        = Some (''video_'' @ generateRoomId rnd)) \<and>
   (videoChatQueue s = [] \<longrightarrow>
      videoChatQueue (fst (joinVideoChat s sid uname rnd)) = [\<lparr>socket = sid, username = uname\<rparr>] \<and>
      snd (joinVideoChat s sid uname rnd) = []) \<and>
   (enqueued_at es i a \<and> enqueued_at es j b \<and> i < j \<longrightarrow>
      (\<exists>k. i < k \<and> k < j \<and> (matched_at es k a \<or> es ! k = Disconnect a))) \<and>
   (enqueued_at es i a \<and> enqueued_at es j b \<and> i < j \<and>
    list_all (\<lambda>k. es ! k \<noteq> Disconnect a) [Suc i..<j] \<and> j < j' \<and> matched_at es j' b \<longrightarrow>
      (\<exists>i'. i < i' \<and> i' < j' \<and> matched_at es i' a))"
proof -
  have order: "enqueued_at es i a \<and> enqueued_at es j b \<and> i < j \<and>
      list_all (\<lambda>k. es ! k \<noteq> Disconnect a) [Suc i..<j] \<and> j < j' \<and> matched_at es j' b \<longrightarrow>
        (\<exists>i'. i < i' \<and> i' < j' \<and> matched_at es i' a)"
  proof (intro impI, elim conjE)
    assume "enqueued_at es i a" "enqueued_at es j b" "i < j"
      "list_all (\<lambda>k. es ! k \<noteq> Disconnect a) [Suc i..<j]" "j < j'"
    then obtain k where "i < k" "k < j" "matched_at es k a"
      using matched_before_next_enqueue by blast
    with \<open>j < j'\<close> show "\<exists>i'. i < i' \<and> i' < j' \<and> matched_at es i' a"
      by (intro exI [of _ k]) simp
  qed
  show ?thesis
    using left_before_next_enqueue [of es i a j b] order
    by (simp add: joinTextChat_def joinVideoChat_def Let_def socket_join_def)
qed

text \<open>
  Four sockets connect (events 0 to 3) and join the text queue in turn: s1 is queued at
  event 4 and matched at event 5, s3 is queued at event 6 and matched at event 7.  In
  the video queue, s1 waits and s2 is matched with it.
\<close>

theorem fifo_matching_witness:
  "enqueued_at four_joins 4 ''s1'' \<and> enqueued_at four_joins 6 ''s3'' \<and>
   list_all (\<lambda>k. four_joins ! k \<noteq> Disconnect ''s1'') [Suc 4..<6] \<and>
   matched_at four_joins 5 ''s1'' \<and> matched_at four_joins 7 ''s3'' \<and>
   (\<exists>k. 4 < k \<and> k < 6 \<and> (matched_at four_joins k ''s1'' \<or> four_joins ! k = Disconnect ''s1'')) \<and>
   (\<exists>i'. 4 < i' \<and> i' < 7 \<and> matched_at four_joins i' ''s1'') \<and>
   textChatQueue (fst (joinTextChat init ''s1'' ''Ann'' ''0.4fzyo82mvyr''))
     = [\<lparr>socket = ''s1'', username = ''Ann''\<rparr>] \<and>
   textChatQueue (before four_joins 5) = [\<lparr>socket = ''s1'', username = ''Ann''\<rparr>] \<and>
   textChatQueue (fst (joinTextChat (before four_joins 5) ''s2'' ''Bob'' ''0.9k2x7q1'')) = [] \<and>
   snd (joinTextChat (before four_joins 5) ''s2'' ''Bob'' ''0.9k2x7q1'') =
     [(''s2'', ChatMatched ''Ann'' ''text_9K2X7Q''), (''s1'', ChatMatched ''Bob'' ''text_9K2X7Q'')] \<and>
   videoChatQueue video_waiting = [\<lparr>socket = ''s1'', username = ''Ann''\<rparr>] \<and>
   videoChatQueue (fst (joinVideoChat video_waiting ''s2'' ''Bob'' ''0.9k2x7q1'')) = [] \<and>
   snd (joinVideoChat video_waiting ''s2'' ''Bob'' ''0.9k2x7q1'') =
     [(''s2'', VideoChatMatched ''Ann'' ''video_9K2X7Q'' True),
      (''s1'', VideoChatMatched ''Bob'' ''video_9K2X7Q'' False)] \<and>
   socketToRoom (fst (joinVideoChat video_waiting ''s2'' ''Bob'' ''0.9k2x7q1'')) ''s1''
     = Some ''video_9K2X7Q''"
proof -
  have e: "enqueued_at four_joins 4 ''s1''" "enqueued_at four_joins 6 ''s3''"
    by (simp_all add: enqueued_at_def before_def four_joins_def server_defs)
  have m: "matched_at four_joins 5 ''s1''" "matched_at four_joins 7 ''s3''"
    by (simp_all add: matched_at_def head_is_def before_def four_joins_def server_defs)
  have d: "list_all (\<lambda>k. four_joins ! k \<noteq> Disconnect ''s1'') [Suc 4..<6]"
    by (simp add: four_joins_def upt_rec)
  have q: "textChatQueue init = []"
    by (simp add: init_def)
  have h: "textChatQueue (before four_joins 5) = [\<lparr>socket = ''s1'', username = ''Ann''\<rparr>]"
          "videoChatQueue video_waiting = [\<lparr>socket = ''s1'', username = ''Ann''\<rparr>]"
    by (simp_all add: before_def scenario_defs server_defs)
  have g: "generateRoomId ''0.9k2x7q1'' = ''9K2X7Q''"
    by (simp add: generateRoomId_def toUpperCase_def)
  have t1: "textChatQueue (fst (joinTextChat init ''s1'' ''Ann'' ''0.4fzyo82mvyr''))
              = [\<lparr>socket = ''s1'', username = ''Ann''\<rparr>]"
    using fifo_matching [of init _ _ "''s1''" "''Ann''" "''0.4fzyo82mvyr''"] q by simp
  have t2: "textChatQueue (fst (joinTextChat (before four_joins 5) ''s2'' ''Bob'' ''0.9k2x7q1'')) = [] \<and>
            snd (joinTextChat (before four_joins 5) ''s2'' ''Bob'' ''0.9k2x7q1'') =
              [(''s2'', ChatMatched ''Ann'' ''text_9K2X7Q''), (''s1'', ChatMatched ''Bob'' ''text_9K2X7Q'')]"
    using fifo_matching [of "before four_joins 5" "\<lparr>socket = ''s1'', username = ''Ann''\<rparr>" "[]"
                            "''s2''" "''Bob''" "''0.9k2x7q1''"] h(1) g
    by simp
  have v2: "videoChatQueue (fst (joinVideoChat video_waiting ''s2'' ''Bob'' ''0.9k2x7q1'')) = [] \<and>
            snd (joinVideoChat video_waiting ''s2'' ''Bob'' ''0.9k2x7q1'') =
              [(''s2'', VideoChatMatched ''Ann'' ''video_9K2X7Q'' True),
               (''s1'', VideoChatMatched ''Bob'' ''video_9K2X7Q'' False)] \<and>
            socketToRoom (fst (joinVideoChat video_waiting ''s2'' ''Bob'' ''0.9k2x7q1'')) ''s1''
              = Some ''video_9K2X7Q''"
    using fifo_matching [of video_waiting "\<lparr>socket = ''s1'', username = ''Ann''\<rparr>" "[]"
                            "''s2''" "''Bob''" "''0.9k2x7q1''"] h(2) g
    by simp
  have o: "\<exists>k. 4 < k \<and> k < 6 \<and> (matched_at four_joins k ''s1'' \<or> four_joins ! k = Disconnect ''s1'')"
    using fifo_matching [of _ _ _ _ _ _ four_joins 4 "''s1''" 6 "''s3''"] e by simp
  have l: "\<exists>i'. 4 < i' \<and> i' < 7 \<and> matched_at four_joins i' ''s1''"
    using fifo_matching [of _ _ _ _ _ _ four_joins 4 "''s1''" 6 "''s3''" 7] e m d by simp
  from e m d o l t1 t2 h v2 show ?thesis by blast
qed

subsection \<open>Delivery of chat messages\<close>

text \<open>Every handler that binds a socket to a room also joins it to that room.\<close>

lemma bound_in_room_step: "bound_in_room s \<Longrightarrow> bound_in_room (fst (step s e))"
  unfolding bound_in_room_def
  by (cases e) (auto simp: handler_defs split: list.splits option.splits prod.splits if_splits)

lemma bound_in_room_run: "bound_in_room s \<Longrightarrow> bound_in_room (run s es)"
  by (induction es arbitrary: s) (simp_all add: bound_in_room_step del: step.simps)

text \<open>
  C8 (as amended).  In every state reached from the initial one, a \<open>sendMessage\<close> of a
  socket A bound to a room R whose id is not the empty string changes no state and is
  sent as \<open>messageReceived\<close>, with A's registered display name as sender, to exactly the
  members of the socket.io room R that are not in the room named by A's id.  So every
  socket bound to R that is not in the room named by A's id receives it; no socket that
  is not a member of the socket.io room R receives it; and A, when it is in its own room,
  does not receive it.
\<close>

theorem message_relay:
  "socketToRoom (run init es) a = Some r \<and> r \<noteq> [] \<longrightarrow>
     fst (sendMessage (run init es) a message) = run init es \<and>
     snd (sendMessage (run init es) a message) =
       map (\<lambda>x. (x, MessageReceived message (socketToUsername (run init es) a)))
           (filter (\<lambda>x. x \<notin> set (rooms (run init es) a)) (rooms (run init es) r)) \<and>
     (\<forall>x. socketToRoom (run init es) x = Some r \<and> x \<notin> set (rooms (run init es) a) \<longrightarrow>
          (x, MessageReceived message (socketToUsername (run init es) a))
            \<in> set (snd (sendMessage (run init es) a message))) \<and>
     (\<forall>x ev. (x, ev) \<in> set (snd (sendMessage (run init es) a message)) \<longrightarrow>
          x \<in> set (rooms (run init es) r) \<and> x \<notin> set (rooms (run init es) a) \<and>
          ev = MessageReceived message (socketToUsername (run init es) a)) \<and>
     (a \<in> set (rooms (run init es) a) \<longrightarrow>
          a \<notin> set (map fst (snd (sendMessage (run init es) a message))))"
proof -
  have "bound_in_room (run init es)"
    by (rule bound_in_room_run) (simp add: bound_in_room_def init_def)
  then show ?thesis
    by (auto simp: bound_in_room_def sendMessage_def socket_to_def)
qed

text \<open>After four joins s3 and s4 share a room; a message of s3 goes to s4 alone.\<close>

theorem message_relay_witness:
  "socketToRoom (run init four_joins) ''s3'' = Some ''text_Q0W9E8'' \<and>
   socketToRoom (run init four_joins) ''s4'' = Some ''text_Q0W9E8'' \<and>
   rooms (run init four_joins) ''s3'' = [''s3''] \<and>
   snd (sendMessage (run init four_joins) ''s3'' ''hi'') = [(''s4'', MessageReceived ''hi'' (Some ''Cy''))] \<and>
   (''s4'', MessageReceived ''hi'' (socketToUsername (run init four_joins) ''s3''))
      \<in> set (snd (sendMessage (run init four_joins) ''s3'' ''hi'')) \<and>
   ''s3'' \<notin> set (map fst (snd (sendMessage (run init four_joins) ''s3'' ''hi'')))"
  using message_relay [of four_joins "''s3''" "''text_Q0W9E8''" "''hi''"]
  by (simp add: four_joins_def server_defs)

text \<open>
  C8 as stated fails.  Sockets s1 and s2 are bound to the private room whose code is the
  id of s1 and are its members, yet a message of s1 is sent to nobody, s2 being in the
  room named by the sender's id.  Sockets bound to the private room with the empty code
  are its members, yet a message of s1 is sent to nobody.  And after s2, matched with s1,
  has joined the queue again and been matched with s3, it is bound to the new room but
  still receives what s1 sends in the old one.
\<close>

theorem message_relay_counterexample:
  "socketToRoom (run init own_room_shared) ''s1'' = Some ''s1'' \<and>
   socketToRoom (run init own_room_shared) ''s2'' = Some ''s1'' \<and>
   rooms (run init own_room_shared) ''s1'' = [''s1'', ''s2''] \<and>
   snd (sendMessage (run init own_room_shared) ''s1'' ''hi'') = [] \<and>
   socketToRoom (run init empty_code) ''s1'' = Some [] \<and>
   socketToRoom (run init empty_code) ''s2'' = Some [] \<and>
   rooms (run init empty_code) [] = [''s1'', ''s2''] \<and>
   snd (sendMessage (run init empty_code) ''s1'' ''hi'') = [] \<and>
   socketToRoom (run init stale_member) ''s1'' = Some ''text_9K2X7Q'' \<and>
   socketToRoom (run init stale_member) ''s2'' = Some ''text_Q0W9E8'' \<and>
   snd (sendMessage (run init stale_member) ''s1'' ''hi'') = [(''s2'', MessageReceived ''hi'' (Some ''Ann''))]"
  by (simp add: scenario_defs server_defs)

subsection \<open>Waiting and bound\<close>








subsection \<open>Room identifiers of random rooms\<close>

text \<open>
  C2.  The source comments \<open>generateRoomId\<close> as generating unique room ids, but the id is
  the random draw alone.  When the draw of a second match equals that of a first whose
  room is still in use, both pairs are bound to one room id, all four sockets are in one
  socket.io room, and a message of s4 is delivered to s1 and s2 as well as to its
  partner s3.
\<close>

theorem room_id_collision:
  "socketToRoom (run init colliding_draws) ''s1'' = Some ''text_9K2X7Q'' \<and>
   socketToRoom (run init colliding_draws) ''s2'' = Some ''text_9K2X7Q'' \<and>
   socketToRoom (run init colliding_draws) ''s3'' = Some ''text_9K2X7Q'' \<and>
   socketToRoom (run init colliding_draws) ''s4'' = Some ''text_9K2X7Q'' \<and>
   chat_pairs init colliding_draws = [(''s2'', ''s1''), (''s4'', ''s3'')] \<and>
   rooms (run init colliding_draws) ''text_9K2X7Q'' = [''s2'', ''s1'', ''s4'', ''s3''] \<and>
   snd (sendMessage (run init colliding_draws) ''s4'' ''hi'') =
     [(''s2'', MessageReceived ''hi'' (Some ''Di'')), (''s1'', MessageReceived ''hi'' (Some ''Di'')),
      (''s3'', MessageReceived ''hi'' (Some ''Di''))]"
  by (simp add: colliding_draws_def server_defs)


end
